theory Spec2Isabelle
  imports Main "HOL-Library.Char_ord" "HOL-Library.List_Lexorder" "HOL-Library.AList"
begin

section \<open>The scoring application \<open>scorer_app.py\<close>\<close>

text \<open>
  The application keeps all of its state in the file system: the catalog
  \<open>aligned_output/manifest.json\<close> and, below \<open>scorer_data/\<close>, one directory per scorer
  holding the log \<open>scores.csv\<close>. The model passes that state explicitly. A CSV file is
  the list of its rows and a row the list of its fields, which is what \<open>csv.writer\<close>
  produces and \<open>csv.reader\<close> returns. A scorer identifier is the name of an entry of
  \<open>scorer_data/\<close>. Python strings are compared as \<open>string\<close> is here, character by
  character and a proper prefix first.
\<close>

subsection \<open>Exceptions\<close>

datatype py_error =
    KeyError
  | FileExistsError
  | FileNotFoundError
  | OverflowError
  | ZeroDivisionError

subsection \<open>Python numbers\<close>

text \<open>
  The coordinates of a submission are JSON numbers, Python \<open>int\<close> or \<open>float\<close>, and
  the distances are computed in binary floating point. Their arithmetic is a parameter
  of the model: a record of the operations the source applies, over a type \<open>'n\<close> of
  Python numbers. \<open>n_pow\<close> is the only operation of the source that can raise on
  numbers (\<open>OverflowError\<close>); \<open>n_int_div\<close> is \<open>a / b\<close> on two integers with \<open>b\<close>
  not zero.
\<close>

record 'n py_num =
  n_int :: "int \<Rightarrow> 'n"
  n_dec :: "int \<Rightarrow> nat \<Rightarrow> 'n"
  n_add :: "'n \<Rightarrow> 'n \<Rightarrow> 'n"
  n_sub :: "'n \<Rightarrow> 'n \<Rightarrow> 'n"
  n_mul :: "'n \<Rightarrow> 'n \<Rightarrow> 'n"
  n_div :: "'n \<Rightarrow> 'n \<Rightarrow> 'n"
  n_int_div :: "int \<Rightarrow> int \<Rightarrow> 'n"
  n_pow :: "'n \<Rightarrow> 'n \<Rightarrow> py_error + 'n"
  n_round :: "'n \<Rightarrow> int"
  n_str :: "'n \<Rightarrow> string"
  n_fmt2 :: "'n \<Rightarrow> string"

text \<open>The literal \<open>5.84\<close> is \<open>n_dec env 584 2\<close>.\<close>

definition BOX_W_INCHES :: "'n py_num \<Rightarrow> 'n" where
  "BOX_W_INCHES env = n_dec env 584 2"

definition BOX_H_INCHES :: "'n py_num \<Rightarrow> 'n" where
  "BOX_H_INCHES env = n_dec env 631 2"

definition IMG_W_PX :: "'n py_num \<Rightarrow> 'n" where
  "IMG_W_PX env = n_int env 1110"

definition IMG_H_PX :: "'n py_num \<Rightarrow> 'n" where
  "IMG_H_PX env = n_int env 1215"

definition PX_PER_INCH :: "'n py_num \<Rightarrow> 'n" where
  "PX_PER_INCH env =
     n_div env
       (n_add env (n_div env (IMG_W_PX env) (BOX_W_INCHES env))
                  (n_div env (IMG_H_PX env) (BOX_H_INCHES env)))
       (n_int env 2)"

definition MM_PER_PX :: "'n py_num \<Rightarrow> 'n" where
  "MM_PER_PX env = n_div env (n_dec env 254 1) (PX_PER_INCH env)"

subsection \<open>Files\<close>

type_synonym csv_row = "string list"
type_synonym csv_file = "csv_row list"

definition CSV_HEADER :: csv_row where
  "CSV_HEADER =
     [''image_code'', ''measurement_id'',
      ''point1_x'', ''point1_y'',
      ''point2_x'', ''point2_y'',
      ''distance_px'', ''distance_mm'',
      ''timestamp'']"

definition AR_SYSTEMS :: "string set" where
  "AR_SYSTEMS = {''2D/AR'', ''AR-VIU''}"

text \<open>
  An entry of \<open>scorer_data/\<close> is a plain file or a directory, which holds
  \<open>scores.csv\<close> or not; the directory lists each name once. The manifest is the dictionary \<open>json.load\<close> returns, as the
  list of its items (a dictionary has each key once); each value is an object with
  string fields.
\<close>

datatype fs_entry = PlainFile | ScorerDir "csv_file option"

type_synonym manifest = "(string \<times> (string \<times> string) list) list"

record fs =
  manifest_json :: "manifest option"
  scorer_data :: "(string \<times> fs_entry) list option"

definition load_manifest :: "fs \<Rightarrow> manifest" where
  "load_manifest st = (case manifest_json st of Some m \<Rightarrow> m | None \<Rightarrow> [])"

definition get_image_list :: "fs \<Rightarrow> string list" where
  "get_image_list st = sort (map fst (load_manifest st))"

text \<open>\<open>scores_csv st scorer_id\<close> is the file at \<open>scorer_data/scorer_id/scores.csv\<close>,
  \<open>None\<close> when the path does not exist.\<close>

definition scores_csv :: "fs \<Rightarrow> string \<Rightarrow> csv_file option" where
  "scores_csv st scorer_id =
     (case scorer_data st of
        None \<Rightarrow> None
      | Some entries \<Rightarrow>
          (case map_of entries scorer_id of
             Some (ScorerDir f) \<Rightarrow> f
           | _ \<Rightarrow> None))"

subsection \<open>Reading a log: \<open>csv.DictReader\<close>\<close>

text \<open>
  \<open>dict\<close> of a list of pairs: a later pair replaces an earlier one with the same key.
  \<open>csv.DictReader\<close> takes the first row as the field names and skips empty rows; a
  row shorter than the field names gets \<open>None\<close> for the missing ones. A value of the
  dictionary is therefore \<open>Some text\<close> or \<open>None\<close>, Python's \<open>None\<close>.
\<close>

definition py_dict :: "('k \<times> 'v) list \<Rightarrow> ('k \<rightharpoonup> 'v)" where
  "py_dict kvs = map_of (rev kvs)"

definition row_dict :: "csv_row \<Rightarrow> csv_row \<Rightarrow> (string \<rightharpoonup> string option)" where
  "row_dict fieldnames row =
     py_dict (zip fieldnames (map Some row)
              @ map (\<lambda>k. (k, None)) (drop (length row) fieldnames))"

fun collect_codes ::
  "csv_row \<Rightarrow> csv_file \<Rightarrow> string option set \<Rightarrow> py_error + string option set" where
  "collect_codes fieldnames [] scored = Inr scored"
| "collect_codes fieldnames (row # rows) scored =
     (if row = [] then collect_codes fieldnames rows scored
      else (case row_dict fieldnames row ''image_code'' of
              None \<Rightarrow> Inl KeyError
            | Some v \<Rightarrow> collect_codes fieldnames rows (insert v scored)))"

definition read_codes :: "csv_file \<Rightarrow> py_error + string option set" where
  "read_codes f =
     (case f of [] \<Rightarrow> Inr {} | fieldnames # rows \<Rightarrow> collect_codes fieldnames rows {})"

definition get_scorer_progress :: "fs \<Rightarrow> string \<Rightarrow> py_error + string option set" where
  "get_scorer_progress st scorer_id =
     (case scores_csv st scorer_id of
        None \<Rightarrow> Inr {}
      | Some f \<Rightarrow> read_codes f)"

subsection \<open>Writing a log: \<open>save_measurements\<close>\<close>

record 'n measurement =
  m_id :: string
  p1_x :: 'n
  p1_y :: 'n
  p2_x :: 'n
  p2_y :: 'n

text \<open>One pass of the loop body: the row for one measurement, written at time \<open>now\<close>
  (the text of \<open>datetime.now().isoformat()\<close>).\<close>

definition score_row ::
  "'n py_num \<Rightarrow> string \<Rightarrow> string \<Rightarrow> 'n measurement \<Rightarrow> py_error + csv_row" where
  "score_row env now image_code m =
     (let dx = n_sub env (p1_x m) (p2_x m);
          dy = n_sub env (p1_y m) (p2_y m)
      in case n_pow env dx (n_int env 2) of
           Inl e \<Rightarrow> Inl e
         | Inr dx2 \<Rightarrow>
        (case n_pow env dy (n_int env 2) of
           Inl e \<Rightarrow> Inl e
         | Inr dy2 \<Rightarrow>
        (case n_pow env (n_add env dx2 dy2) (n_dec env 5 1) of
           Inl e \<Rightarrow> Inl e
         | Inr dist_px \<Rightarrow>
             (let dist_mm = n_mul env dist_px (MM_PER_PX env)
              in Inr [image_code, m_id m,
                      n_str env (p1_x m), n_str env (p1_y m),
                      n_str env (p2_x m), n_str env (p2_y m),
                      n_fmt2 env dist_px, n_fmt2 env dist_mm,
                      now]))))"

text \<open>
  The loop over the measurements. \<open>clock i\<close> is the wall clock read for the \<open>i\<close>-th
  row of the call. An exception leaves the loop; the rows written before it stay in
  the file, which the \<open>with\<close> block closes.
\<close>

fun write_rows ::
  "'n py_num \<Rightarrow> (nat \<Rightarrow> string) \<Rightarrow> string \<Rightarrow> 'n measurement list \<Rightarrow> nat \<Rightarrow> csv_file
     \<Rightarrow> py_error option \<times> csv_file" where
  "write_rows env clock image_code [] i f = (None, f)"
| "write_rows env clock image_code (m # ms) i f =
     (case score_row env (clock i) image_code m of
        Inl e \<Rightarrow> (Some e, f)
      | Inr row \<Rightarrow> write_rows env clock image_code ms (Suc i) (f @ [row]))"

definition save_measurements ::
  "'n py_num \<Rightarrow> (nat \<Rightarrow> string) \<Rightarrow> string \<Rightarrow> string \<Rightarrow> 'n measurement list \<Rightarrow> fs
     \<Rightarrow> (py_error + unit) \<times> fs" where
  "save_measurements env clock scorer_id image_code measurements st =
     (case scorer_data st of
        None \<Rightarrow> (Inl FileNotFoundError, st)
      | Some entries \<Rightarrow>
          (case map_of entries scorer_id of
             Some PlainFile \<Rightarrow> (Inl FileExistsError, st)
           | _ \<Rightarrow>
               (let file_exists = (scores_csv st scorer_id \<noteq> None);
                    f0 = (case scores_csv st scorer_id of
                            Some f \<Rightarrow> f
                          | None \<Rightarrow> [CSV_HEADER]);
                    (err, f1) = write_rows env clock image_code measurements 0 f0
                in ((case err of None \<Rightarrow> Inr () | Some e \<Rightarrow> Inl e),
                    st\<lparr>scorer_data :=
                         Some (AList.update scorer_id (ScorerDir (Some f1)) entries)\<rparr>))))"

subsection \<open>The request handlers\<close>

text \<open>\<open>not s\<close> on an optional string: \<open>None\<close> and the empty string are false.\<close>

definition truthy :: "string option \<Rightarrow> bool" where
  "truthy s = (case s of None \<Rightarrow> False | Some v \<Rightarrow> v \<noteq> [])"

record 'n score_page =
  sp_image_code :: string
  sp_image_url :: string
  sp_reference_url :: string
  sp_progress_done :: nat
  sp_progress_total :: nat
  sp_scorer_id :: string
  sp_mm_per_px :: 'n

datatype 'n score_response =
    ScoreRedirectIndex
  | DonePage nat string
  | ScorePage "'n score_page"

definition score_next :: "'n py_num \<Rightarrow> string option \<Rightarrow> fs \<Rightarrow> py_error + 'n score_response" where
  "score_next env session_scorer st =
     (if \<not> truthy session_scorer then Inr ScoreRedirectIndex
      else
        (let scorer_id = the session_scorer;
             all_codes = get_image_list st
         in case get_scorer_progress st scorer_id of
              Inl e \<Rightarrow> Inl e
            | Inr scored \<Rightarrow>
                (let remaining = filter (\<lambda>c. Some c \<notin> scored) all_codes
                 in if remaining = [] then Inr (DonePage (length all_codes) scorer_id)
                    else
                      (let code = hd remaining;
                           entry = (case map_of (load_manifest st) code of
                                      Some e \<Rightarrow> e | None \<Rightarrow> []);
                           system = (case map_of entry ''system'' of
                                       Some s \<Rightarrow> s | None \<Rightarrow> []);
                           ref_type = (if system \<in> AR_SYSTEMS then ''ar'' else ''screen'')
                       in Inr (ScorePage
                            \<lparr>sp_image_code = code,
                             sp_image_url = ''/image/'' @ code,
                             sp_reference_url = ''/reference/'' @ ref_type,
                             sp_progress_done = card scored,
                             sp_progress_total = length all_codes,
                             sp_scorer_id = scorer_id,
                             sp_mm_per_px = MM_PER_PX env\<rparr>)))))"

record 'n submit_data =
  sd_image_code :: "string option"
  sd_measurements :: "'n measurement list option"

datatype submit_response =
    Error400 string
  | SubmitOk string

definition submit_scores ::
  "'n py_num \<Rightarrow> (nat \<Rightarrow> string) \<Rightarrow> string option \<Rightarrow> 'n submit_data \<Rightarrow> fs
     \<Rightarrow> (py_error + submit_response) \<times> fs" where
  "submit_scores env clock session_scorer data st =
     (if \<not> truthy session_scorer then (Inr (Error400 ''No scorer session''), st)
      else
        (let scorer_id = the session_scorer;
             image_code = sd_image_code data;
             measurements = (case sd_measurements data of Some ms \<Rightarrow> ms | None \<Rightarrow> [])
         in if \<not> truthy image_code then (Inr (Error400 ''No image code''), st)
            else
              (case save_measurements env clock scorer_id (the image_code) measurements st of
                 (Inl e, st') \<Rightarrow> (Inl e, st')
               | (Inr u, st') \<Rightarrow> (Inr (SubmitOk ''/score''), st'))))"










subsection \<open>Sequences of requests\<close>

text \<open>The rows one call of \<open>save_measurements\<close> appends after the header or the old
  rows.\<close>

definition rows_of ::
  "'n py_num \<Rightarrow> (nat \<Rightarrow> string) \<Rightarrow> string \<Rightarrow> 'n measurement list \<Rightarrow> csv_file" where
  "rows_of env clock image_code measurements =
     snd (write_rows env clock image_code measurements 0 [])"





text \<open>
  A log the application wrote starts with the header: \<open>save_measurements\<close> writes it
  when it creates the file and only appends afterwards.
\<close>

definition log_ok :: "fs \<Rightarrow> string \<Rightarrow> bool" where
  "log_ok st scorer_id =
     (case scores_csv st scorer_id of
        None \<Rightarrow> True
      | Some f \<Rightarrow> f \<noteq> [] \<and> hd f = CSV_HEADER)"

text \<open>\<open>mkdir\<close> and \<open>open\<close> succeed for this scorer: \<open>scorer_data/\<close> exists and the
  scorer's name is not that of a plain file.\<close>

definition can_write :: "fs \<Rightarrow> string \<Rightarrow> bool" where
  "can_write st scorer_id =
     (case scorer_data st of
        None \<Rightarrow> False
      | Some entries \<Rightarrow> map_of entries scorer_id \<noteq> Some PlainFile)"


subsection \<open>Inputs for examples\<close>

text \<open>
  The theorems below hold for every arithmetic. The examples run the model on
  measurements whose coordinates are all zero and on counts that are zero, with an
  arithmetic that has a single number: the texts it prints and the integer it
  rounds to are those Python gives for zero.
\<close>

definition zero_num :: "unit py_num" where
  "zero_num =
     \<lparr>n_int = (\<lambda>_. ()), n_dec = (\<lambda>_ _. ()),
      n_add = (\<lambda>_ _. ()), n_sub = (\<lambda>_ _. ()), n_mul = (\<lambda>_ _. ()), n_div = (\<lambda>_ _. ()),
      n_int_div = (\<lambda>_ _. ()), n_pow = (\<lambda>_ _. Inr ()),
      n_round = (\<lambda>_. 0), n_str = (\<lambda>_. ''0''), n_fmt2 = (\<lambda>_. ''0.00'')\<rparr>"

definition origin_pair :: "unit measurement" where
  "origin_pair = \<lparr>m_id = ''1'', p1_x = (), p1_y = (), p2_x = (), p2_y = ()\<rparr>"

definition noon :: "nat \<Rightarrow> string" where
  "noon i = ''2026-01-05T12:00:00.000001''"

definition empty_store :: fs where
  "empty_store = \<lparr>manifest_json = None, scorer_data = Some []\<rparr>"



definition two_images :: fs where
  "two_images =
     \<lparr>manifest_json = Some [(''A002'', [(''system'', ''2D/Screen'')]),
                            (''A001'', [(''system'', ''AR-VIU'')])],
      scorer_data = Some []\<rparr>"

section \<open>Properties\<close>

subsection \<open>Reading a log that starts with the header\<close>




subsection \<open>The rows a call writes\<close>

lemma write_rows_append:
  "write_rows env clock code ms i f =
     (fst (write_rows env clock code ms i []), f @ snd (write_rows env clock code ms i []))"
proof (induction ms arbitrary: i f)
  case Nil
  show ?case by simp
next
  case (Cons m ms)
  show ?case
  proof (cases "score_row env (clock i) code m")
    case (Inl e)
    then show ?thesis by simp
  next
    case (Inr row)
    have a: "write_rows env clock code ms (Suc i) (f @ [row]) =
       (fst (write_rows env clock code ms (Suc i) []),
        (f @ [row]) @ snd (write_rows env clock code ms (Suc i) []))"
      by (rule Cons.IH)
    have b: "write_rows env clock code ms (Suc i) ([] @ [row]) =
       (fst (write_rows env clock code ms (Suc i) []),
        ([] @ [row]) @ snd (write_rows env clock code ms (Suc i) []))"
      by (rule Cons.IH)
    show ?thesis using a b Inr by simp
  qed
qed




subsection \<open>What a submission changes\<close>



lemma scores_csv_update:
  "scorer_data st = Some entries \<Longrightarrow>
   scores_csv (st\<lparr>scorer_data := Some (AList.update s (ScorerDir (Some f)) entries)\<rparr>) s'
     = (if s' = s then Some f else scores_csv st s')"
  by (simp add: scores_csv_def update_conv')

lemma save_measurements_fail:
  "\<not> can_write st s \<Longrightarrow>
     \<exists>e. save_measurements env clock s code ms st = (Inl e, st)"
  by (auto simp: can_write_def save_measurements_def split: option.splits fs_entry.splits)

lemma save_measurements_ok:
  assumes "can_write st s"
  shows "fst (save_measurements env clock s code ms st) =
           (case fst (write_rows env clock code ms 0 []) of None \<Rightarrow> Inr () | Some e \<Rightarrow> Inl e)"
    and "scores_csv (snd (save_measurements env clock s code ms st)) s' =
           (if s' = s
            then Some ((case scores_csv st s of Some f \<Rightarrow> f | None \<Rightarrow> [CSV_HEADER])
                       @ rows_of env clock code ms)
            else scores_csv st s')"
    and "manifest_json (snd (save_measurements env clock s code ms st)) = manifest_json st"
    and "can_write (snd (save_measurements env clock s code ms st)) s'' = can_write st s''"
proof -
  obtain entries where e: "scorer_data st = Some entries" and np: "map_of entries s \<noteq> Some PlainFile"
    using assms by (auto simp: can_write_def split: option.splits)
  define f0 where "f0 = (case scores_csv st s of Some f \<Rightarrow> f | None \<Rightarrow> [CSV_HEADER])"
  have wr: "write_rows env clock code ms 0 f0 =
          (fst (write_rows env clock code ms 0 []), f0 @ rows_of env clock code ms)"
    unfolding rows_of_def by (rule write_rows_append)
  have sm: "save_measurements env clock s code ms st =
     ((case fst (write_rows env clock code ms 0 []) of None \<Rightarrow> Inr () | Some e \<Rightarrow> Inl e),
      st\<lparr>scorer_data := Some (AList.update s (ScorerDir (Some (f0 @ rows_of env clock code ms))) entries)\<rparr>)"
  proof (cases "map_of entries s")
    case None
    then show ?thesis
      using e wr by (simp add: save_measurements_def Let_def f0_def)
  next
    case (Some ent)
    with np obtain fo where "ent = ScorerDir fo" by (cases ent) auto
    with Some show ?thesis
      using e wr by (simp add: save_measurements_def Let_def f0_def)
  qed
  show "fst (save_measurements env clock s code ms st) =
           (case fst (write_rows env clock code ms 0 []) of None \<Rightarrow> Inr () | Some e \<Rightarrow> Inl e)"
    by (simp add: sm)
  show "scores_csv (snd (save_measurements env clock s code ms st)) s' =
           (if s' = s
            then Some ((case scores_csv st s of Some f \<Rightarrow> f | None \<Rightarrow> [CSV_HEADER])
                       @ rows_of env clock code ms)
            else scores_csv st s')"
    using scores_csv_update[OF e] by (simp add: sm f0_def)
  show "manifest_json (snd (save_measurements env clock s code ms st)) = manifest_json st"
    by (simp add: sm)
  show "can_write (snd (save_measurements env clock s code ms st)) s'' = can_write st s''"
    using e np by (simp add: sm can_write_def update_conv')
qed

lemma save_measurements_log_ok:
  "log_ok st s' \<Longrightarrow> log_ok (snd (save_measurements env clock s code ms st)) s'"
proof (cases "can_write st s")
  case False
  from save_measurements_fail[OF this, of env clock code ms]
  show "log_ok st s' \<Longrightarrow> ?thesis" by auto
next
  case True
  assume "log_ok st s'"
  then show ?thesis
    unfolding log_ok_def save_measurements_ok(2)[OF True]
    by (auto split: option.splits)
qed


lemma submit_scores_reject:
  "\<not> (truthy sess \<and> truthy (sd_image_code data)) \<Longrightarrow>
     \<exists>msg. submit_scores env clock sess data st = (Inr (Error400 msg), st)"
  by (auto simp: submit_scores_def Let_def)

lemma submit_scores_save:
  assumes "truthy sess" and "truthy (sd_image_code data)"
  shows "submit_scores env clock sess data st =
     ((case fst (save_measurements env clock (the sess) (the (sd_image_code data))
                   (case sd_measurements data of Some ms \<Rightarrow> ms | None \<Rightarrow> []) st) of
         Inl e \<Rightarrow> Inl e
       | Inr u \<Rightarrow> Inr (SubmitOk ''/score'')),
      snd (save_measurements env clock (the sess) (the (sd_image_code data))
             (case sd_measurements data of Some ms \<Rightarrow> ms | None \<Rightarrow> []) st))"
  using assms
  by (simp add: submit_scores_def Let_def split: prod.splits sum.splits)

lemma submit_scores_log_ok:
  "log_ok st s' \<Longrightarrow> log_ok (snd (submit_scores env clock sess data st)) s'"
proof (cases "truthy sess \<and> truthy (sd_image_code data)")
  case True
  assume "log_ok st s'"
  then show ?thesis
    using True by (simp add: submit_scores_save save_measurements_log_ok)
next
  case False
  assume "log_ok st s'"
  then show ?thesis
    using submit_scores_reject[OF False, of env clock st] by auto
qed






subsection \<open>Malformed submissions\<close>

text \<open>
  Claim C1, as amended. A submission whose \<open>image_code\<close> is missing (absent, or the
  empty string) is answered with an explicit error and nothing is written: the state
  after the request is the state before it, whatever the measurements are. (An empty
  list of measurements alone is not a reason for rejection.)
\<close>

theorem submit_missing_image_code_rejected:
  "\<not> truthy (sd_image_code data) \<Longrightarrow>
     \<exists>msg. submit_scores env clock sess data st = (Inr (Error400 msg), st)"
  by (auto simp: submit_scores_def Let_def)

theorem submit_missing_image_code_rejected_witness:
  "\<not> truthy (sd_image_code \<lparr>sd_image_code = None, sd_measurements = Some [origin_pair]\<rparr>)
   \<and> (\<exists>msg. submit_scores zero_num noon (Some ''s1'')
               \<lparr>sd_image_code = None, sd_measurements = Some [origin_pair]\<rparr> two_images
             = (Inr (Error400 msg), two_images))"
proof -
  have h: "\<not> truthy (sd_image_code \<lparr>sd_image_code = None, sd_measurements = Some [origin_pair]\<rparr>)"
    by (simp add: truthy_def)
  from submit_missing_image_code_rejected[OF h] h show ?thesis by blast
qed

text \<open>
  Claim C1 as stated fails: a submission with an image code and an empty list of
  measurements is answered \<open>ok\<close>, and the request creates the scorer's directory and
  a log that holds the header.
\<close>

theorem submit_empty_measurements_counterexample:
  "submit_scores zero_num noon (Some ''s1'')
       \<lparr>sd_image_code = Some ''A001'', sd_measurements = Some []\<rparr> two_images
     = (Inr (SubmitOk ''/score''),
        two_images\<lparr>scorer_data := Some [(''s1'', ScorerDir (Some [CSV_HEADER]))]\<rparr>)
   \<and> two_images\<lparr>scorer_data := Some [(''s1'', ScorerDir (Some [CSV_HEADER]))]\<rparr> \<noteq> two_images"
  by (simp add: submit_scores_def save_measurements_def scores_csv_def truthy_def
        two_images_def Let_def)

subsection \<open>Assignment after a submission\<close>

lemma score_next_page:
  assumes "score_next env sess st = Inr (ScorePage page)"
  shows "\<exists>scored. truthy sess \<and> get_scorer_progress st (the sess) = Inr scored
           \<and> filter (\<lambda>c. Some c \<notin> scored) (get_image_list st) \<noteq> []
           \<and> sp_image_code page = hd (filter (\<lambda>c. Some c \<notin> scored) (get_image_list st))"
  using assms
  by (auto simp: score_next_def Let_def split: if_splits sum.splits)

lemma score_next_page_not_scored:
  assumes "score_next env sess st = Inr (ScorePage page)"
      and "get_scorer_progress st (the sess) = Inr scored"
  shows "Some (sp_image_code page) \<notin> scored \<and> sp_image_code page \<in> set (get_image_list st)"
proof -
  from score_next_page[OF assms(1)] assms(2)
  have ne: "filter (\<lambda>c. Some c \<notin> scored) (get_image_list st) \<noteq> []"
    and eq: "sp_image_code page = hd (filter (\<lambda>c. Some c \<notin> scored) (get_image_list st))"
    by auto
  from ne have "hd (filter (\<lambda>c. Some c \<notin> scored) (get_image_list st))
       \<in> set (filter (\<lambda>c. Some c \<notin> scored) (get_image_list st))"
    by (rule hd_in_set)
  with eq show ?thesis by simp
qed






subsection \<open>The assignment policy\<close>

lemma hd_sorted_least:
  fixes xs :: "'a::linorder list"
  assumes "sorted xs" and "x \<in> set xs"
  shows "hd xs \<le> x"
  using assms by (cases xs) auto

lemma first_remaining_least:
  fixes xs :: "'a::linorder list"
  assumes "P c" and "c \<in> set xs"
  shows "hd (filter P (sort xs)) \<le> c"
proof -
  have "sorted (filter P (sort xs))" using sorted_filter[of "\<lambda>x. x" "sort xs" P] by simp
  moreover have "c \<in> set (filter P (sort xs))" using assms by simp
  ultimately show ?thesis by (rule hd_sorted_least)
qed

lemma score_next_cases:
  assumes "truthy sess" and "get_scorer_progress st (the sess) = Inr scored"
  shows "score_next env sess st =
     (if filter (\<lambda>c. Some c \<notin> scored) (get_image_list st) = []
      then Inr (DonePage (length (get_image_list st)) (the sess))
      else Inr (ScorePage
        \<lparr>sp_image_code = hd (filter (\<lambda>c. Some c \<notin> scored) (get_image_list st)),
         sp_image_url = ''/image/'' @ hd (filter (\<lambda>c. Some c \<notin> scored) (get_image_list st)),
         sp_reference_url = ''/reference/'' @
            (if (case map_of (case map_of (load_manifest st)
                        (hd (filter (\<lambda>c. Some c \<notin> scored) (get_image_list st))) of
                      Some e \<Rightarrow> e | None \<Rightarrow> []) ''system'' of Some s \<Rightarrow> s | None \<Rightarrow> [])
                \<in> AR_SYSTEMS then ''ar'' else ''screen''),
         sp_progress_done = card scored,
         sp_progress_total = length (get_image_list st),
         sp_scorer_id = the sess,
         sp_mm_per_px = MM_PER_PX env\<rparr>))"
  using assms by (simp add: score_next_def Let_def)

text \<open>
  Claim C4. For a scorer with an identity whose log can be read, with completed set
  \<open>scored\<close>: when every catalog code is completed the answer is the done page;
  otherwise it is the page of a code that is in the catalog, is not completed, and is
  least among the catalog codes that are not completed, which is the first element of
  the sorted code list without the completed ones. With nothing completed and a
  catalog that is not empty, that code is the least code of the catalog.
\<close>

theorem next_assignment_is_first_remaining:
  assumes "truthy sess" and "get_scorer_progress st (the sess) = Inr scored"
  shows "(set (map fst (load_manifest st)) \<subseteq> {c. Some c \<in> scored} \<longrightarrow>
            score_next env sess st
              = Inr (DonePage (length (map fst (load_manifest st))) (the sess)))
       \<and> (\<not> set (map fst (load_manifest st)) \<subseteq> {c. Some c \<in> scored} \<longrightarrow>
            (\<exists>page. score_next env sess st = Inr (ScorePage page)
               \<and> sp_image_code page
                   = hd (filter (\<lambda>c. Some c \<notin> scored) (sort (map fst (load_manifest st))))
               \<and> sp_image_code page \<in> set (map fst (load_manifest st))
               \<and> Some (sp_image_code page) \<notin> scored
               \<and> (\<forall>c \<in> set (map fst (load_manifest st)).
                     Some c \<notin> scored \<longrightarrow> sp_image_code page \<le> c)
               \<and> (scored = {} \<longrightarrow>
                     sp_image_code page = Min (set (map fst (load_manifest st))))))"
proof -
  let ?codes = "map fst (load_manifest st)"
  let ?rem = "filter (\<lambda>c. Some c \<notin> scored) (get_image_list st)"
  have gl: "get_image_list st = sort ?codes" by (simp add: get_image_list_def)
  have rem_empty: "(?rem = []) = (set ?codes \<subseteq> {c. Some c \<in> scored})"
    by (auto simp: gl filter_empty_conv)
  have alldone: "set ?codes \<subseteq> {c. Some c \<in> scored} \<Longrightarrow>
      score_next env sess st = Inr (DonePage (length ?codes) (the sess))"
    using score_next_cases[OF assms, of env] rem_empty by (simp add: gl)
  have page: "\<exists>page. score_next env sess st = Inr (ScorePage page)
               \<and> sp_image_code page = hd (filter (\<lambda>c. Some c \<notin> scored) (sort ?codes))
               \<and> sp_image_code page \<in> set ?codes
               \<and> Some (sp_image_code page) \<notin> scored
               \<and> (\<forall>c \<in> set ?codes. Some c \<notin> scored \<longrightarrow> sp_image_code page \<le> c)
               \<and> (scored = {} \<longrightarrow> sp_image_code page = Min (set ?codes))"
    if ne: "\<not> set ?codes \<subseteq> {c. Some c \<in> scored}"
  proof -
    from ne rem_empty have rne: "?rem \<noteq> []" by simp
    then obtain page where p: "score_next env sess st = Inr (ScorePage page)"
      and code: "sp_image_code page = hd ?rem"
      using score_next_cases[OF assms, of env] by simp
    from score_next_page_not_scored[OF p assms(2)]
    have mem: "sp_image_code page \<in> set ?codes" and ns: "Some (sp_image_code page) \<notin> scored"
      by (simp_all add: gl)
    have least: "\<forall>c \<in> set ?codes. Some c \<notin> scored \<longrightarrow> sp_image_code page \<le> c"
      unfolding code gl using first_remaining_least[of "\<lambda>c. Some c \<notin> scored" _ ?codes]
      by blast
    have "sp_image_code page = Min (set ?codes)" if "scored = {}"
    proof (rule sym, rule Min_eqI)
      show "finite (set ?codes)" by simp
      show "sp_image_code page \<in> set ?codes" by (rule mem)
      fix y assume "y \<in> set ?codes"
      with least that show "sp_image_code page \<le> y" by blast
    qed
    with p code mem ns least show ?thesis by (auto simp: gl)
  qed
  from alldone page show ?thesis by blast
qed


theorem next_assignment_is_first_remaining_witness:
  "truthy (Some ''s1'')
   \<and> get_scorer_progress two_images (the (Some ''s1'')) = Inr {}
   \<and> \<not> set (map fst (load_manifest two_images)) \<subseteq> {c. Some c \<in> {}}
   \<and> score_next zero_num (Some ''s1'') two_images
      = Inr (ScorePage \<lparr>sp_image_code = ''A001'', sp_image_url = ''/image/A001'',
               sp_reference_url = ''/reference/ar'', sp_progress_done = 0,
               sp_progress_total = 2, sp_scorer_id = ''s1'', sp_mm_per_px = ()\<rparr>)
   \<and> ''A001'' = Min (set (map fst (load_manifest two_images)))
   \<and> get_scorer_progress empty_store (the (Some ''s1'')) = Inr {}
   \<and> set (map fst (load_manifest empty_store)) \<subseteq> {c. Some c \<in> {}}
   \<and> score_next zero_num (Some ''s1'') empty_store = Inr (DonePage 0 ''s1'')"
proof -
  have h1: "truthy (Some ''s1'')" by (simp add: truthy_def)
  have h2: "get_scorer_progress two_images (the (Some ''s1'')) = Inr {}"
    by (simp add: get_scorer_progress_def scores_csv_def two_images_def)
  have h3: "\<not> set (map fst (load_manifest two_images)) \<subseteq> {c. Some c \<in> {}}"
    by (simp add: load_manifest_def two_images_def)
  have ev: "score_next zero_num (Some ''s1'') two_images
      = Inr (ScorePage \<lparr>sp_image_code = ''A001'', sp_image_url = ''/image/A001'',
               sp_reference_url = ''/reference/ar'', sp_progress_done = 0,
               sp_progress_total = 2, sp_scorer_id = ''s1'', sp_mm_per_px = ()\<rparr>)"
    by (simp add: score_next_def get_scorer_progress_def scores_csv_def truthy_def
        two_images_def Let_def get_image_list_def load_manifest_def AR_SYSTEMS_def)
  have h4: "get_scorer_progress empty_store (the (Some ''s1'')) = Inr {}"
    by (simp add: get_scorer_progress_def scores_csv_def empty_store_def)
  have h5: "set (map fst (load_manifest empty_store)) \<subseteq> {c. Some c \<in> {}}"
    by (simp add: load_manifest_def empty_store_def)
  from next_assignment_is_first_remaining[OF h1 h2, of zero_num] h3 ev
  have m: "''A001'' = Min (set (map fst (load_manifest two_images)))"
    by auto
  from next_assignment_is_first_remaining[OF h1 h4, of zero_num] h5
  have d: "score_next zero_num (Some ''s1'') empty_store = Inr (DonePage 0 ''s1'')"
    by (simp add: load_manifest_def empty_store_def)
  from h1 h2 h3 ev m h4 h5 d show ?thesis by blast
qed

subsection \<open>Determinism of the assignment\<close>







subsection \<open>Submissions with no measurements\<close>



subsection \<open>Image codes outside the catalog\<close>






subsection \<open>The header of a log\<close>






subsection \<open>The status page\<close>










end
